theory Spec2Isabelle
  imports Complex_Main "HOL-Library.Word"
begin

section \<open>The live voice session hook (src/hooks/useLiveAPI.ts)\<close>

text \<open>
  The hook \<open>useLiveAPI\<close> keeps three pieces of React state (\<open>isActive\<close>,
  \<open>transcripts\<close>, \<open>error\<close>) and four refs (\<open>audioContextRef\<close>,
  \<open>nextStartTimeRef\<close>, \<open>sourcesRef\<close>, \<open>sessionRef\<close>). Its operations are
  \<open>stopSession\<close>, \<open>startSession\<close> and the callbacks that \<open>startSession\<close> hands to
  the transport (\<open>onopen\<close>, \<open>onmessage\<close>, \<open>onerror\<close>, \<open>onclose\<close>), the
  \<open>ended\<close> listener of a playback source and the capture callback \<open>onaudioprocess\<close>.

  The model passes the hook's state explicitly. Times are JavaScript numbers, modelled as
  reals. Every call the hook makes on a browser or SDK object is appended to a trace
  (\<open>effects\<close>); an object is named by the position of the trace entry that created it.
\<close>

subsection \<open>Capture: Float32 samples to PCM16 bytes (onaudioprocess, lines 42-52)\<close>

text \<open>
  A JavaScript number is a finite value or one of NaN, +Infinity, -Infinity. The samples
  are 32-bit floats; the product with 32768 (a power of two) is computed in double
  precision and is exact for every finite 32-bit float, so it is the real product.
\<close>

datatype number = Finite real | NaN | PosInfinity | NegInfinity

fun js_times :: "number \<Rightarrow> real \<Rightarrow> number" where
  "js_times (Finite x) k = Finite (x * k)"
| "js_times NaN k = NaN"
| "js_times PosInfinity k = (if 0 < k then PosInfinity else if k < 0 then NegInfinity else NaN)"
| "js_times NegInfinity k = (if 0 < k then NegInfinity else if k < 0 then PosInfinity else NaN)"

text \<open>Rounding towards zero, the first step of the conversion of a number to an integer.\<close>

definition trunc :: "real \<Rightarrow> int" where
  "trunc x = (if x < 0 then \<lceil>x\<rceil> else \<lfloor>x\<rfloor>)"

text \<open>
  Storing a number into an \<open>Int16Array\<close> element converts it with ToInt16: a value that
  is not finite becomes 0, a finite one is truncated and reduced modulo \<open>2 ^ 16\<close>.
\<close>

fun ToInt16 :: "number \<Rightarrow> 16 word" where
  "ToInt16 (Finite x) = word_of_int (trunc x)"
| "ToInt16 NaN = 0"
| "ToInt16 PosInfinity = 0"
| "ToInt16 NegInfinity = 0"

text \<open>The loop of lines 46-48: \<open>int16[i] = inputData[i] * 32768\<close> for every index.\<close>

definition int16_of :: "number list \<Rightarrow> 16 word list" where
  "int16_of inputData = map (\<lambda>x. ToInt16 (js_times x 32768)) inputData"

text \<open>
  \<open>new Uint8Array(int16.buffer)\<close> reads the same memory bytewise; the byte order is the
  platform's, little-endian on the platforms browsers run on: low byte first.
\<close>

definition int16_bytes :: "16 word \<Rightarrow> 8 word list" where
  "int16_bytes w = [ucast w, ucast (drop_bit 8 w)]"

definition pcm_bytes :: "number list \<Rightarrow> 8 word list" where
  "pcm_bytes inputData = concat (map int16_bytes (int16_of inputData))"

subsection \<open>Data of the session\<close>

text \<open>
  An \<open>AudioBuffer\<close> of the Web Audio API has a number of sample frames and a sample
  rate; its \<open>duration\<close> attribute is their quotient, in seconds.
\<close>

record audioBuffer =
  frames :: nat
  sampleRate :: nat

definition duration :: "audioBuffer \<Rightarrow> real" where
  "duration b = real (frames b) / real (sampleRate b)"

text \<open>
  \<open>decode\<close> and \<open>decodeAudioData\<close> come from \<open>utils/audio\<close>, which is not among the
  sources at hand. A message therefore carries the outcome of
  \<open>decodeAudioData(decode(base64Audio), output, 24000, 1)\<close> on its payload: the decoded
  buffer, or the exception thrown.
\<close>

datatype decoded = DecodeError | Decoded audioBuffer

text \<open>
  What line 63 finds in a message, reading
  \<open>serverContent?.modelTurn?.parts[0]?.inlineData?.data\<close>. The index \<open>[0]\<close> is
  applied without \<open>?.\<close>: a \<open>modelTurn\<close> that has no \<open>parts\<close> makes the read
  throw a TypeError (\<open>PartsMissing\<close>). Otherwise the value is falsy, when a link of
  the chain is absent or the string is empty (\<open>NoData\<close>), or it is a non-empty
  string, given with the outcome of decoding it (\<open>Data\<close>).
\<close>

datatype payload = PartsMissing | NoData | Data decoded

text \<open>A transcription object; its \<open>text\<close> field may be undefined.\<close>

datatype transcription = Transcription "string option"

text \<open>The fields of a \<open>LiveServerMessage\<close> that \<open>onmessage\<close> reads.\<close>

record message =
  audio :: payload
  interrupted :: bool
  outputTranscription :: "transcription option"
  inputTranscription :: "transcription option"

text \<open>
  The calls the hook can make on the objects it holds. The last three are the calls that
  release an audio context, a microphone track and a transport session.
\<close>

datatype effect =
    NewAudioContext nat
  | GetUserMedia
  | LiveConnect
  | CreateMediaStreamSource nat nat
  | CreateScriptProcessor nat nat
  | CreateBufferSource nat
  | SourceStart nat audioBuffer real
  | SourceStop nat
  | ContextClose nat
  | TrackStop nat
  | SessionClose nat

record hook =
  isActive :: bool
  transcripts :: "string list"
  error :: "string option"
  audioContextRef :: "(nat \<times> nat) option"
  nextStartTimeRef :: real
  sourcesRef :: "nat list"
  sessionRef :: "nat option"
  effects :: "effect list"

text \<open>The state of a freshly mounted hook (lines 7-14).\<close>

definition initial :: hook where
  "initial = \<lparr>isActive = False, transcripts = [], error = None, audioContextRef = None,
     nextStartTimeRef = 0, sourcesRef = [], sessionRef = None, effects = []\<rparr>"

subsection \<open>stopSession (lines 16-21)\<close>

text \<open>The body of the test on \<open>sessionRef.current\<close> is a comment only.\<close>

definition stopSession :: "hook \<Rightarrow> hook" where
  "stopSession s = (if sessionRef s \<noteq> None then s else s)\<lparr>isActive := False\<rparr>"

subsection \<open>startSession (lines 23-115)\<close>

text \<open>
  What the browser and the SDK answer during one call: the place where the \<open>try\<close> block
  throws, if any. \<open>InitThrows\<close> is a throw in lines 26-28 (before any context exists),
  \<open>OutputContextThrows\<close> in line 29, \<open>MicrophoneDenied\<close> in line 32, \<open>ConnectFails\<close> in
  lines 34-110.
\<close>

datatype startOutcome =
  InitThrows | OutputContextThrows | MicrophoneDenied | ConnectFails | Connected

text \<open>The \<open>catch\<close> block (lines 111-114).\<close>

definition catch :: "hook \<Rightarrow> hook" where
  "catch s = s\<lparr>error := Some ''Could not initialize Live Session.''\<rparr>"

definition perform :: "effect \<Rightarrow> hook \<Rightarrow> hook" where
  "perform e s = s\<lparr>effects := effects s @ [e]\<rparr>"

definition startSession :: "startOutcome \<Rightarrow> hook \<Rightarrow> hook" where
  "startSession outcome s =
    (let s1 = s\<lparr>error := None\<rparr> in
     if outcome = InitThrows then catch s1 else
     let inputCtx = length (effects s1);
         s2 = perform (NewAudioContext 16000) s1 in
     if outcome = OutputContextThrows then catch s2 else
     let outputCtx = length (effects s2);
         s3 = (perform (NewAudioContext 24000) s2)\<lparr>audioContextRef := Some (inputCtx, outputCtx)\<rparr> in
     if outcome = MicrophoneDenied then catch s3 else
     let s4 = perform GetUserMedia s3 in
     if outcome = ConnectFails then catch s4 else
     let session = length (effects s4) in
     (perform LiveConnect s4)\<lparr>sessionRef := Some session\<rparr>)"

subsection \<open>The transport callbacks (lines 37-100)\<close>

text \<open>
  \<open>onopen\<close> (lines 37-61) uses the input context and the stream of the call of
  \<open>startSession\<close> that registered it.
\<close>

definition onopen :: "nat \<Rightarrow> nat \<Rightarrow> hook \<Rightarrow> hook" where
  "onopen inputCtx stream s =
     perform (CreateScriptProcessor inputCtx 4096)
       (perform (CreateMediaStreamSource inputCtx stream) (s\<lparr>isActive := True\<rparr>))"

text \<open>A JavaScript \<open>Set\<close> keeps insertion order and holds each element once.\<close>

definition set_add :: "nat \<Rightarrow> nat list \<Rightarrow> nat list" where
  "set_add x xs = (if x \<in> set xs then xs else xs @ [x])"

definition set_delete :: "nat \<Rightarrow> nat list \<Rightarrow> nat list" where
  "set_delete x xs = removeAll x xs"

text \<open>Lines 69-79: the decoded buffer is given to a new source, started and tracked.\<close>

definition schedule :: "audioBuffer \<Rightarrow> nat \<Rightarrow> hook \<Rightarrow> hook" where
  "schedule buf output s =
    (let source = length (effects s);
         s1 = perform (CreateBufferSource output) s;
         s2 = perform (SourceStart source buf (nextStartTimeRef s1)) s1;
         s3 = s2\<lparr>nextStartTimeRef := nextStartTimeRef s2 + duration buf\<rparr>
     in s3\<lparr>sourcesRef := set_add source (sourcesRef s3)\<rparr>)"

text \<open>Lines 82-86.\<close>

definition interrupt :: "hook \<Rightarrow> hook" where
  "interrupt s =
     s\<lparr>effects := effects s @ map SourceStop (sourcesRef s),
       sourcesRef := [], nextStartTimeRef := 0\<rparr>"

text \<open>Lines 88-93; an undefined text is rendered as \<open>undefined\<close> by the template.\<close>

fun rendered :: "transcription \<Rightarrow> string" where
  "rendered (Transcription None) = ''undefined''"
| "rendered (Transcription (Some t)) = t"

definition transcribe :: "message \<Rightarrow> hook \<Rightarrow> hook" where
  "transcribe m s =
    (let s1 = (case outputTranscription m of
                 None \<Rightarrow> s
               | Some t \<Rightarrow> s\<lparr>transcripts := transcripts s @ [''AI: '' @ rendered t]\<rparr>)
     in case inputTranscription m of
          None \<Rightarrow> s1
        | Some t \<Rightarrow> s1\<lparr>transcripts := transcripts s1 @ [''You: '' @ rendered t]\<rparr>)"

text \<open>
  \<open>onmessage\<close> (lines 62-94), called with the reading \<open>now\<close> of \<open>output.currentTime\<close>.
  The handler is an async function without a \<open>try\<close>: when line 63 throws, its promise
  is rejected and nothing has been done; when decoding throws in line 68, its promise is
  rejected with the assignment of line 66 made. In both cases the rest of the body, the
  interruption and the transcriptions, does not run.
\<close>

datatype completion = Resolved | Rejected

definition after_audio :: "message \<Rightarrow> hook \<Rightarrow> hook" where
  "after_audio m s = transcribe m (if interrupted m then interrupt s else s)"

definition onmessage :: "real \<Rightarrow> message \<Rightarrow> hook \<Rightarrow> completion \<times> hook" where
  "onmessage now m s =
    (case audio m of
       PartsMissing \<Rightarrow> (Rejected, s)
     | NoData \<Rightarrow> (Resolved, after_audio m s)
     | Data d \<Rightarrow>
        (case audioContextRef s of
           None \<Rightarrow> (Resolved, after_audio m s)
         | Some (input, output) \<Rightarrow>
            let s1 = s\<lparr>nextStartTimeRef := max (nextStartTimeRef s) now\<rparr> in
            (case d of
               DecodeError \<Rightarrow> (Rejected, s1)
             | Decoded buf \<Rightarrow> (Resolved, after_audio m (schedule buf output s1)))))"

text \<open>The \<open>ended\<close> listener of a source (lines 73-75).\<close>

definition onended :: "nat \<Rightarrow> hook \<Rightarrow> hook" where
  "onended source s = s\<lparr>sourcesRef := set_delete source (sourcesRef s)\<rparr>"

text \<open>\<open>onerror\<close> (lines 95-99) and \<open>onclose\<close> (line 100).\<close>

definition onerror :: "hook \<Rightarrow> hook" where
  "onerror s =
     s\<lparr>error := Some ''Connection failed. Check your microphone and API configuration.'',
       isActive := False\<rparr>"

definition onclose :: "hook \<Rightarrow> hook" where
  "onclose s = s\<lparr>isActive := False\<rparr>"

subsection \<open>Runs of the hook\<close>

text \<open>
  Everything that can happen to a mounted hook, one event at a time: the two operations
  it returns, and the callbacks.
\<close>

datatype event =
    StartSession startOutcome
  | OnOpen nat nat
  | OnMessage real message
  | OnEnded nat
  | OnError
  | OnClose
  | StopSession

fun step :: "hook \<Rightarrow> event \<Rightarrow> hook" where
  "step s (StartSession outcome) = startSession outcome s"
| "step s (OnOpen inputCtx stream) = onopen inputCtx stream s"
| "step s (OnMessage now m) = snd (onmessage now m s)"
| "step s (OnEnded source) = onended source s"
| "step s OnError = onerror s"
| "step s OnClose = onclose s"
| "step s StopSession = stopSession s"

definition run :: "event list \<Rightarrow> hook \<Rightarrow> hook" where
  "run es s = foldl step s es"

text \<open>The playback buffers started so far, oldest first: start time and duration.\<close>

fun scheduled :: "effect list \<Rightarrow> (real \<times> real) list" where
  "scheduled [] = []"
| "scheduled (SourceStart source buf t # es) = (t, duration buf) # scheduled es"
| "scheduled (e # es) = scheduled es"

text \<open>The release calls in a trace.\<close>

fun is_release :: "effect \<Rightarrow> bool" where
  "is_release (ContextClose c) = True"
| "is_release (TrackStop t) = True"
| "is_release (SessionClose c) = True"
| "is_release e = False"

subsection \<open>Sequences of messages and example inputs\<close>

text \<open>The handler called once per message, each with its clock reading, in arrival order.\<close>

definition arrivals :: "(real \<times> message) list \<Rightarrow> event list" where
  "arrivals cs = map (\<lambda>(now, m). OnMessage now m) cs"

text \<open>
  A message whose payload decodes to a buffer and that carries no interruption flag, and
  the duration of the buffer a message carries.
\<close>

definition is_chunk :: "message \<Rightarrow> bool" where
  "is_chunk m =
     (\<not> interrupted m \<and> (case audio m of Data (Decoded buf) \<Rightarrow> True | _ \<Rightarrow> False))"

definition chunk_duration :: "message \<Rightarrow> real" where
  "chunk_duration m = (case audio m of Data (Decoded buf) \<Rightarrow> duration buf | _ \<Rightarrow> 0)"

text \<open>A message that carries one decoded audio chunk and nothing else.\<close>

definition chunk :: "audioBuffer \<Rightarrow> message" where
  "chunk buf = \<lparr>audio = Data (Decoded buf), interrupted = False,
     outputTranscription = None, inputTranscription = None\<rparr>"

text \<open>A session brought up from the initial state: started, connected and opened.\<close>

definition active_session :: hook where
  "active_session = run [StartSession Connected, OnOpen 0 2] initial"

text \<open>Half a second of audio at the inbound rate, and the session while it plays.\<close>

definition half_second :: audioBuffer where
  "half_second = \<lparr>frames = 12000, sampleRate = 24000\<rparr>"

definition playing :: hook where
  "playing = snd (onmessage 0 (chunk half_second) active_session)"

definition two_chunks :: "(real \<times> message) list" where
  "two_chunks = [(0, chunk half_second), (1 / 10, chunk half_second)]"

text \<open>An interruption alone, and an interruption in the same message as a chunk.\<close>

definition barge_in :: message where
  "barge_in = \<lparr>audio = NoData, interrupted = True,
     outputTranscription = None, inputTranscription = None\<rparr>"

definition chunk_and_interruption :: message where
  "chunk_and_interruption = \<lparr>audio = Data (Decoded half_second), interrupted = True,
     outputTranscription = None, inputTranscription = None\<rparr>"

text \<open>
  An interruption in a message whose \<open>modelTurn\<close> has no \<open>parts\<close>, and an
  interruption in a message whose payload does not decode.
\<close>

definition partless_interruption :: message where
  "partless_interruption = \<lparr>audio = PartsMissing, interrupted = True,
     outputTranscription = None, inputTranscription = None\<rparr>"

definition undecodable_interruption :: message where
  "undecodable_interruption = \<lparr>audio = Data DecodeError, interrupted = True,
     outputTranscription = None, inputTranscription = None\<rparr>"

text \<open>A message with both transcriptions, and a session that received it and was stopped.\<close>

definition greeting :: message where
  "greeting = \<lparr>audio = NoData, interrupted = False,
     outputTranscription = Some (Transcription (Some ''Hello'')),
     inputTranscription = Some (Transcription (Some ''Hi''))\<rparr>"

definition first_session :: hook where
  "first_session = run [OnMessage 0 greeting, StopSession] active_session"

section \<open>Auxiliary facts\<close>

lemmas hook_defs = stopSession_def startSession_def catch_def perform_def onopen_def
  onerror_def onclose_def onended_def

subsection \<open>What each part of the message handler changes\<close>

lemma transcribe_fields [simp]:
  "isActive (transcribe m s) = isActive s"
  "error (transcribe m s) = error s"
  "audioContextRef (transcribe m s) = audioContextRef s"
  "nextStartTimeRef (transcribe m s) = nextStartTimeRef s"
  "sourcesRef (transcribe m s) = sourcesRef s"
  "sessionRef (transcribe m s) = sessionRef s"
  "effects (transcribe m s) = effects s"
  by (simp_all add: transcribe_def Let_def split: option.splits)

lemma transcribe_transcripts:
  "transcripts (transcribe m s) = transcripts s
     @ (case outputTranscription m of None \<Rightarrow> [] | Some t \<Rightarrow> [''AI: '' @ rendered t])
     @ (case inputTranscription m of None \<Rightarrow> [] | Some t \<Rightarrow> [''You: '' @ rendered t])"
  by (simp add: transcribe_def Let_def split: option.splits)

lemma schedule_fields [simp]:
  "isActive (schedule buf out s) = isActive s"
  "error (schedule buf out s) = error s"
  "transcripts (schedule buf out s) = transcripts s"
  "audioContextRef (schedule buf out s) = audioContextRef s"
  "sessionRef (schedule buf out s) = sessionRef s"
  "nextStartTimeRef (schedule buf out s) = nextStartTimeRef s + duration buf"
  "sourcesRef (schedule buf out s) = set_add (length (effects s)) (sourcesRef s)"
  "effects (schedule buf out s) = effects s @
     [CreateBufferSource out, SourceStart (length (effects s)) buf (nextStartTimeRef s)]"
  by (simp_all add: schedule_def perform_def Let_def)

lemma interrupt_fields [simp]:
  "isActive (interrupt s) = isActive s"
  "error (interrupt s) = error s"
  "transcripts (interrupt s) = transcripts s"
  "audioContextRef (interrupt s) = audioContextRef s"
  "sessionRef (interrupt s) = sessionRef s"
  "nextStartTimeRef (interrupt s) = 0"
  "sourcesRef (interrupt s) = []"
  "effects (interrupt s) = effects s @ map SourceStop (sourcesRef s)"
  by (simp_all add: interrupt_def)

lemma duration_nonneg: "0 \<le> duration buf"
  by (simp add: duration_def)

lemma chunk_duration_nonneg: "0 \<le> chunk_duration m"
  by (simp add: chunk_duration_def duration_nonneg split: option.splits payload.splits decoded.splits)

lemma scheduled_append: "scheduled (xs @ ys) = scheduled xs @ scheduled ys"
  by (induction xs rule: scheduled.induct) simp_all

lemma scheduled_stops [simp]: "scheduled (map SourceStop xs) = []"
  by (induction xs) simp_all

lemma release_stops [simp]: "filter is_release (map SourceStop xs) = []"
  by (induction xs) simp_all

lemma onmessage_interrupted:
  assumes "interrupted m" and "fst (onmessage now m s) = Resolved"
  shows "sourcesRef (snd (onmessage now m s)) = []"
    and "nextStartTimeRef (snd (onmessage now m s)) = 0"
    and "audioContextRef (snd (onmessage now m s)) = audioContextRef s"
  using assms
  by (auto simp: onmessage_def after_audio_def Let_def
      split: option.splits payload.splits decoded.splits prod.splits)

lemma onmessage_chunk:
  assumes "audio m = Data (Decoded buf)" and "\<not> interrupted m"
    and "audioContextRef s = Some (i, out)"
  shows "fst (onmessage now m s) = Resolved"
    and "effects (snd (onmessage now m s)) = effects s @
      [CreateBufferSource out, SourceStart (length (effects s)) buf (max (nextStartTimeRef s) now)]"
    and "nextStartTimeRef (snd (onmessage now m s)) = max (nextStartTimeRef s) now + duration buf"
    and "sourcesRef (snd (onmessage now m s)) = set_add (length (effects s)) (sourcesRef s)"
    and "audioContextRef (snd (onmessage now m s)) = audioContextRef s"
  using assms
  by (simp_all add: onmessage_def after_audio_def Let_def)

lemma onmessage_isActive_update:
  "onmessage now m (s\<lparr>isActive := b\<rparr>) =
     (fst (onmessage now m s), (snd (onmessage now m s))\<lparr>isActive := b\<rparr>)"
  by (cases s)
    (simp add: onmessage_def after_audio_def transcribe_def interrupt_def schedule_def
      perform_def Let_def split: option.splits payload.splits decoded.splits prod.splits)

subsection \<open>Runs\<close>

lemma run_snoc: "run (es @ [e]) s = step (run es s) e"
  by (simp add: run_def)

lemma arrivals_snoc: "arrivals (cs @ [c]) = arrivals cs @ [OnMessage (fst c) (snd c)]"
  by (simp add: arrivals_def case_prod_beta)

lemma step_no_release:
  "filter is_release (effects (step s e)) = filter is_release (effects s)"
proof (cases e)
  case (OnMessage now m)
  then show ?thesis
    by (simp add: onmessage_def after_audio_def Let_def
        split: option.splits payload.splits decoded.splits prod.splits)
qed (simp_all add: hook_defs Let_def)

lemma run_no_release:
  "filter is_release (effects (run es s)) = filter is_release (effects s)"
  unfolding run_def
  by (induction es arbitrary: s) (simp_all add: step_no_release)

subsection \<open>The example states, evaluated\<close>

lemma duration_half_second: "duration half_second = 1 / 2"
  by (simp add: duration_def half_second_def)

lemma active_session_eq:
  "active_session = \<lparr>isActive = True, transcripts = [], error = None,
     audioContextRef = Some (0, 1), nextStartTimeRef = 0, sourcesRef = [],
     sessionRef = Some 3,
     effects = [NewAudioContext 16000, NewAudioContext 24000, GetUserMedia, LiveConnect,
       CreateMediaStreamSource 0 2, CreateScriptProcessor 0 4096]\<rparr>"
  by (simp add: active_session_def run_def initial_def hook_defs Let_def)

lemma playing_eq:
  "playing = \<lparr>isActive = True, transcripts = [], error = None,
     audioContextRef = Some (0, 1), nextStartTimeRef = 1 / 2, sourcesRef = [6],
     sessionRef = Some 3,
     effects = [NewAudioContext 16000, NewAudioContext 24000, GetUserMedia, LiveConnect,
       CreateMediaStreamSource 0 2, CreateScriptProcessor 0 4096,
       CreateBufferSource 1, SourceStart 6 half_second 0]\<rparr>"
  by (simp add: playing_def active_session_eq onmessage_def chunk_def after_audio_def
      transcribe_def schedule_def perform_def set_add_def duration_half_second Let_def)

lemma flushed_eq:
  "onmessage (3 / 10) barge_in playing = (Resolved,
    \<lparr>isActive = True, transcripts = [], error = None,
     audioContextRef = Some (0, 1), nextStartTimeRef = 0, sourcesRef = [],
     sessionRef = Some 3,
     effects = [NewAudioContext 16000, NewAudioContext 24000, GetUserMedia, LiveConnect,
       CreateMediaStreamSource 0 2, CreateScriptProcessor 0 4096,
       CreateBufferSource 1, SourceStart 6 half_second 0, SourceStop 6]\<rparr>)"
  by (simp add: playing_eq onmessage_def barge_in_def after_audio_def
      transcribe_def interrupt_def Let_def)

lemma chunk_and_interruption_eq:
  "onmessage (3 / 10) chunk_and_interruption playing = (Resolved,
    \<lparr>isActive = True, transcripts = [], error = None,
     audioContextRef = Some (0, 1), nextStartTimeRef = 0, sourcesRef = [],
     sessionRef = Some 3,
     effects = [NewAudioContext 16000, NewAudioContext 24000, GetUserMedia, LiveConnect,
       CreateMediaStreamSource 0 2, CreateScriptProcessor 0 4096,
       CreateBufferSource 1, SourceStart 6 half_second 0,
       CreateBufferSource 1, SourceStart 8 half_second (1 / 2),
       SourceStop 6, SourceStop 8]\<rparr>)"
  by (simp add: playing_eq onmessage_def chunk_and_interruption_def after_audio_def
      transcribe_def interrupt_def schedule_def perform_def set_add_def
      duration_half_second Let_def)

lemma two_chunks_run:
  "scheduled (effects (run (arrivals two_chunks) active_session)) = [(0, 1 / 2), (1 / 2, 1 / 2)]"
  by (simp add: two_chunks_def arrivals_def run_def active_session_eq onmessage_def chunk_def
      after_audio_def transcribe_def schedule_def perform_def set_add_def
      duration_half_second Let_def)

lemma first_session_transcripts: "transcripts first_session = [''AI: Hello'', ''You: Hi'']"
  by (simp add: first_session_def run_def active_session_eq onmessage_def greeting_def
      after_audio_def transcribe_def stopSession_def)

section \<open>Playback scheduling\<close>

subsection \<open>Chunks without interruption\<close>

lemma step_chunk:
  assumes "is_chunk m" and "audioContextRef s \<noteq> None"
  shows "audioContextRef (step s (OnMessage now m)) = audioContextRef s"
    and "scheduled (effects (step s (OnMessage now m))) =
          scheduled (effects s) @ [(max (nextStartTimeRef s) now, chunk_duration m)]"
    and "nextStartTimeRef (step s (OnMessage now m)) =
          max (nextStartTimeRef s) now + chunk_duration m"
proof -
  from assms obtain buf i out where m: "audio m = Data (Decoded buf)" "\<not> interrupted m"
    and s: "audioContextRef s = Some (i, out)"
    by (auto simp: is_chunk_def split: option.splits payload.splits decoded.splits)
  note facts = onmessage_chunk [OF m s, of now]
  show "audioContextRef (step s (OnMessage now m)) = audioContextRef s"
    by (simp add: facts)
  show "scheduled (effects (step s (OnMessage now m))) =
          scheduled (effects s) @ [(max (nextStartTimeRef s) now, chunk_duration m)]"
    by (simp add: facts scheduled_append chunk_duration_def m)
  show "nextStartTimeRef (step s (OnMessage now m)) =
          max (nextStartTimeRef s) now + chunk_duration m"
    by (simp add: facts chunk_duration_def m)
qed

lemma chunks_run:
  assumes ctx: "audioContextRef s \<noteq> None"
    and chunks: "\<forall>c \<in> set cs. is_chunk (snd c)"
  shows "audioContextRef (run (arrivals cs) s) = audioContextRef s \<and>
    (\<exists>new. scheduled (effects (run (arrivals cs) s)) = scheduled (effects s) @ new
      \<and> length new = length cs
      \<and> (\<forall>k<length cs.
            new ! k = (max (nextStartTimeRef (run (arrivals (take k cs)) s)) (fst (cs ! k)),
                       chunk_duration (snd (cs ! k)))
            \<and> nextStartTimeRef (run (arrivals (take (Suc k) cs)) s) =
                fst (new ! k) + snd (new ! k)))"
  using chunks
proof (induction cs rule: rev_induct)
  case Nil
  show ?case by (simp add: arrivals_def run_def)
next
  case (snoc c cs)
  let ?t = "run (arrivals cs) s"
  from snoc have ih_ctx: "audioContextRef ?t = audioContextRef s" by simp
  from snoc obtain new where
    sched: "scheduled (effects ?t) = scheduled (effects s) @ new"
    and len: "length new = length cs"
    and each: "\<forall>k<length cs.
            new ! k = (max (nextStartTimeRef (run (arrivals (take k cs)) s)) (fst (cs ! k)),
                       chunk_duration (snd (cs ! k)))
            \<and> nextStartTimeRef (run (arrivals (take (Suc k) cs)) s) =
                fst (new ! k) + snd (new ! k)"
    by auto
  have c: "is_chunk (snd c)" using snoc.prems by simp
  have t: "audioContextRef ?t \<noteq> None" using ih_ctx ctx by simp
  note st = step_chunk [OF c t, of "fst c"]
  let ?entry = "(max (nextStartTimeRef ?t) (fst c), chunk_duration (snd c))"
  have run': "run (arrivals (cs @ [c])) s = step ?t (OnMessage (fst c) (snd c))"
    by (simp add: arrivals_snoc run_snoc)
  have 1: "audioContextRef (run (arrivals (cs @ [c])) s) = audioContextRef s"
    by (simp add: run' st ih_ctx del: step.simps)
  have 2: "scheduled (effects (run (arrivals (cs @ [c])) s)) =
      scheduled (effects s) @ (new @ [?entry])"
    by (simp add: run' st sched del: step.simps)
  have 3: "length (new @ [?entry]) = length (cs @ [c])"
    by (simp add: len)
  have 4: "(new @ [?entry]) ! k =
        (max (nextStartTimeRef (run (arrivals (take k (cs @ [c]))) s)) (fst ((cs @ [c]) ! k)),
         chunk_duration (snd ((cs @ [c]) ! k)))
      \<and> nextStartTimeRef (run (arrivals (take (Suc k) (cs @ [c]))) s) =
          fst ((new @ [?entry]) ! k) + snd ((new @ [?entry]) ! k)"
    if "k < length (cs @ [c])" for k
  proof (cases "k < length cs")
    case True
    then have "Suc k \<le> length cs" by simp
    with True each show ?thesis
      by (simp add: nth_append len)
  next
    case False
    with that have k: "k = length cs" by simp
    show ?thesis
      by (simp add: k nth_append len run' st del: step.simps)
  qed
  from 1 2 3 4 show ?case by blast
qed

text \<open>
  Claim C1. Let decoded chunks arrive one after the other, none with an interruption flag,
  at a hook that holds audio contexts. Each chunk is started at the maximum of
  \<open>nextStartTimeRef\<close> and the clock reading of its arrival, with the duration of its
  buffer, and \<open>nextStartTimeRef\<close> is then the start time plus the duration. Hence
  every chunk starts no earlier than the end of the one before it, and the start times
  are non-decreasing.
\<close>

theorem chunks_scheduled_without_overlap:
  assumes "audioContextRef s \<noteq> None"
    and "\<forall>c \<in> set cs. is_chunk (snd c)"
  shows "\<exists>new. scheduled (effects (run (arrivals cs) s)) = scheduled (effects s) @ new
      \<and> length new = length cs
      \<and> (\<forall>k<length cs.
            fst (new ! k) = max (nextStartTimeRef (run (arrivals (take k cs)) s)) (fst (cs ! k))
            \<and> snd (new ! k) = chunk_duration (snd (cs ! k))
            \<and> nextStartTimeRef (run (arrivals (take (Suc k) cs)) s) =
                fst (new ! k) + snd (new ! k))
      \<and> (\<forall>k. Suc k < length cs \<longrightarrow> fst (new ! k) + snd (new ! k) \<le> fst (new ! Suc k))
      \<and> sorted (map fst new)"
proof -
  from chunks_run [OF assms] obtain new where
    sched: "scheduled (effects (run (arrivals cs) s)) = scheduled (effects s) @ new"
    and len: "length new = length cs"
    and each: "\<forall>k<length cs.
            new ! k = (max (nextStartTimeRef (run (arrivals (take k cs)) s)) (fst (cs ! k)),
                       chunk_duration (snd (cs ! k)))
            \<and> nextStartTimeRef (run (arrivals (take (Suc k) cs)) s) =
                fst (new ! k) + snd (new ! k)"
    by blast
  have gap: "fst (new ! k) + snd (new ! k) \<le> fst (new ! Suc k)" if "Suc k < length cs" for k
  proof -
    from that each have "nextStartTimeRef (run (arrivals (take (Suc k) cs)) s) =
        fst (new ! k) + snd (new ! k)"
      by simp
    moreover from that each have "fst (new ! Suc k) =
        max (nextStartTimeRef (run (arrivals (take (Suc k) cs)) s)) (fst (cs ! Suc k))"
      by simp
    ultimately show ?thesis by simp
  qed
  have nonneg: "0 \<le> snd (new ! k)" if "k < length cs" for k
    using that each by (simp add: chunk_duration_nonneg)
  have "fst (new ! k) \<le> fst (new ! Suc k)" if "Suc k < length new" for k
    using that gap [of k] nonneg [of k] len by simp
  then have "sorted (map fst new)"
    by (simp add: sorted_iff_nth_Suc)
  with sched len each gap show ?thesis
    by (intro exI [of _ new]) simp
qed

text \<open>
  The two chunks of half a second arriving at 0 and 0.1: the second starts at 0.5.
\<close>

theorem chunks_scheduled_without_overlap_witness:
  "audioContextRef active_session \<noteq> None
   \<and> is_chunk (chunk half_second)
   \<and> sorted (map fst (scheduled (effects (run (arrivals two_chunks) active_session))))
   \<and> scheduled (effects (run (arrivals two_chunks) active_session)) =
        [(0, 1 / 2), (1 / 2, 1 / 2)]"
proof -
  have a: "audioContextRef active_session \<noteq> None"
    by (simp add: active_session_eq)
  have b: "is_chunk (chunk half_second)"
    by (simp add: is_chunk_def chunk_def)
  then have c: "\<forall>c \<in> set two_chunks. is_chunk (snd c)"
    by (simp add: two_chunks_def)
  have d: "scheduled (effects active_session) = []"
    by (simp add: active_session_eq)
  from chunks_scheduled_without_overlap [OF a c] obtain new where
    "scheduled (effects (run (arrivals two_chunks) active_session)) =
       scheduled (effects active_session) @ new" and "sorted (map fst new)"
    by blast
  then have "sorted (map fst (scheduled (effects (run (arrivals two_chunks) active_session))))"
    by (simp add: d)
  with a b two_chunks_run show ?thesis by blast
qed

subsection \<open>Interruption\<close>

text \<open>
  The interruption branch (lines 82-86) is reached only when the handler has not thrown
  before it. When it is reached, every source that was in flight has been stopped by that
  call, \<open>sourcesRef\<close> is empty and \<open>nextStartTimeRef\<close> is zero; a chunk that
  arrives next, at a clock reading that is not negative, is started at that reading.
\<close>

lemma interruption_flushes_when_resolved:
  assumes "interrupted m" and "fst (onmessage now m s) = Resolved"
  shows "sourcesRef (snd (onmessage now m s)) = []
    \<and> nextStartTimeRef (snd (onmessage now m s)) = 0
    \<and> (\<forall>x \<in> set (sourcesRef s).
          SourceStop x \<in> set (drop (length (effects s)) (effects (snd (onmessage now m s)))))
    \<and> (\<forall>now' buf i out. 0 \<le> now' \<and> audioContextRef s = Some (i, out) \<longrightarrow>
          effects (snd (onmessage now' (chunk buf) (snd (onmessage now m s)))) =
            effects (snd (onmessage now m s)) @
              [CreateBufferSource out,
               SourceStart (length (effects (snd (onmessage now m s)))) buf now'])"
proof -
  let ?s' = "snd (onmessage now m s)"
  have stops: "\<forall>x \<in> set (sourcesRef s). SourceStop x \<in> set (drop (length (effects s)) (effects ?s'))"
    using assms
    by (auto simp: onmessage_def after_audio_def Let_def set_add_def
        split: option.splits payload.splits decoded.splits prod.splits)
  have later: "\<forall>now' buf i out. 0 \<le> now' \<and> audioContextRef s = Some (i, out) \<longrightarrow>
          effects (snd (onmessage now' (chunk buf) ?s')) =
            effects ?s' @ [CreateBufferSource out, SourceStart (length (effects ?s')) buf now']"
  proof (intro allI impI)
    fix now' :: real and buf i out
    assume h: "0 \<le> now' \<and> audioContextRef s = Some (i, out)"
    have ctx: "audioContextRef ?s' = Some (i, out)"
      using h onmessage_interrupted(3) [OF assms] by simp
    have "effects (snd (onmessage now' (chunk buf) ?s')) = effects ?s' @
        [CreateBufferSource out, SourceStart (length (effects ?s')) buf (max (nextStartTimeRef ?s') now')]"
      by (rule onmessage_chunk(2) [OF _ _ ctx]) (simp_all add: chunk_def)
    then show "effects (snd (onmessage now' (chunk buf) ?s')) =
            effects ?s' @ [CreateBufferSource out, SourceStart (length (effects ?s')) buf now']"
      using h onmessage_interrupted(2) [OF assms] by (simp add: max_def)
  qed
  from onmessage_interrupted(1,2) [OF assms] stops later show ?thesis by blast
qed

text \<open>
  A chunk plays from 0 to 0.5; the interruption at 0.3 stops it, and the chunk arriving at
  0.7 starts at 0.7.
\<close>

lemma interruption_flushes_when_resolved_example:
  "interrupted barge_in
   \<and> fst (onmessage (3 / 10) barge_in playing) = Resolved
   \<and> sourcesRef playing = [6]
   \<and> nextStartTimeRef playing = 1 / 2
   \<and> sourcesRef (snd (onmessage (3 / 10) barge_in playing)) = []
   \<and> nextStartTimeRef (snd (onmessage (3 / 10) barge_in playing)) = 0
   \<and> SourceStop 6 \<in> set (drop (length (effects playing))
         (effects (snd (onmessage (3 / 10) barge_in playing))))
   \<and> scheduled (effects (snd (onmessage (7 / 10) (chunk half_second)
         (snd (onmessage (3 / 10) barge_in playing))))) = [(0, 1 / 2), (7 / 10, 1 / 2)]"
proof -
  have a: "interrupted barge_in" by (simp add: barge_in_def)
  have b: "fst (onmessage (3 / 10) barge_in playing) = Resolved" by (simp add: flushed_eq)
  have c: "(0::real) \<le> 7 / 10 \<and> audioContextRef playing = Some (0, 1)"
    by (simp add: playing_eq)
  note flush = interruption_flushes_when_resolved [OF a b, unfolded flushed_eq snd_conv]
  from flush c
  have d: "effects (snd (onmessage (7 / 10) (chunk half_second) (snd (onmessage (3 / 10) barge_in playing)))) =
        [NewAudioContext 16000, NewAudioContext 24000, GetUserMedia, LiveConnect,
       CreateMediaStreamSource 0 2, CreateScriptProcessor 0 4096,
       CreateBufferSource 1, SourceStart 6 half_second 0, SourceStop 6,
       CreateBufferSource 1, SourceStart 9 half_second (7 / 10)]"
    unfolding flushed_eq snd_conv by simp
  have e: "sourcesRef playing = [6]" "nextStartTimeRef playing = 1 / 2" "length (effects playing) = 8"
    by (simp_all add: playing_eq)
  show ?thesis
    unfolding d e unfolding flushed_eq snd_conv
    by (simp add: a duration_half_second)
qed

text \<open>
  Claim C2. An interruption signal is to stop every source in flight, empty
  \<open>sourcesRef\<close> and set \<open>nextStartTimeRef\<close> to zero. The handler does not do so
  when it throws before line 82. While a chunk plays (source 6, cursor at 0.5), a message
  with the interruption flag arrives at clock reading 2. When its \<open>modelTurn\<close> has
  no \<open>parts\<close>, line 63 throws and the state is left as it was. When its payload does
  not decode, line 68 throws after line 66 has moved the cursor to 2. In both cases source
  6 is not stopped and stays in \<open>sourcesRef\<close>, and the cursor is not zero.
\<close>

theorem interruption_skipped_when_handler_throws:
  "sourcesRef playing = [6]
   \<and> nextStartTimeRef playing = 1 / 2
   \<and> interrupted partless_interruption
   \<and> onmessage 2 partless_interruption playing = (Rejected, playing)
   \<and> interrupted undecodable_interruption
   \<and> onmessage 2 undecodable_interruption playing =
       (Rejected, playing\<lparr>nextStartTimeRef := 2\<rparr>)
   \<and> sourcesRef (snd (onmessage 2 undecodable_interruption playing)) = [6]
   \<and> nextStartTimeRef (snd (onmessage 2 undecodable_interruption playing)) = 2
   \<and> count_list (effects (snd (onmessage 2 partless_interruption playing))) (SourceStop 6) = 0
   \<and> count_list (effects (snd (onmessage 2 undecodable_interruption playing))) (SourceStop 6) = 0"
  by (simp add: playing_eq onmessage_def partless_interruption_def
      undecodable_interruption_def)

text \<open>
  Claim C9. When a message with the interruption flag has been handled, \<open>sourcesRef\<close>
  is empty and \<open>nextStartTimeRef\<close> is zero, also when the message carries a chunk:
  the chunk is started first, and its source is then stopped and dropped with the others
  by the same call.
\<close>

theorem interrupted_message_leaves_nothing_in_flight:
  assumes "interrupted m" and "fst (onmessage now m s) = Resolved"
  shows "sourcesRef (snd (onmessage now m s)) = []
    \<and> nextStartTimeRef (snd (onmessage now m s)) = 0
    \<and> (\<forall>buf i out. audio m = Data (Decoded buf) \<and> audioContextRef s = Some (i, out) \<longrightarrow>
          effects (snd (onmessage now m s)) = effects s @
            [CreateBufferSource out,
             SourceStart (length (effects s)) buf (max (nextStartTimeRef s) now)] @
            map SourceStop (set_add (length (effects s)) (sourcesRef s))
          \<and> SourceStop (length (effects s)) \<in> set (effects (snd (onmessage now m s))))"
  using assms
  by (auto simp: onmessage_def after_audio_def set_add_def Let_def 
      split: option.splits payload.splits decoded.splits prod.splits)

text \<open>
  A chunk and an interruption in one message, while another chunk plays: both sources are
  stopped.
\<close>

theorem interrupted_message_leaves_nothing_in_flight_witness:
  "interrupted chunk_and_interruption
   \<and> fst (onmessage (3 / 10) chunk_and_interruption playing) = Resolved
   \<and> sourcesRef (snd (onmessage (3 / 10) chunk_and_interruption playing)) = []
   \<and> nextStartTimeRef (snd (onmessage (3 / 10) chunk_and_interruption playing)) = 0
   \<and> SourceStop 8 \<in> set (effects (snd (onmessage (3 / 10) chunk_and_interruption playing)))
   \<and> scheduled (effects (snd (onmessage (3 / 10) chunk_and_interruption playing))) =
       [(0, 1 / 2), (1 / 2, 1 / 2)]"
proof -
  have a: "interrupted chunk_and_interruption"
    by (simp add: chunk_and_interruption_def)
  have b: "fst (onmessage (3 / 10) chunk_and_interruption playing) = Resolved"
    unfolding chunk_and_interruption_eq by simp
  have c: "audio chunk_and_interruption = Data (Decoded half_second)
      \<and> audioContextRef playing = Some (0, 1)"
    by (simp add: chunk_and_interruption_def playing_eq)
  have d: "length (effects playing) = 8"
    by (simp add: playing_eq)
  from interrupted_message_leaves_nothing_in_flight [OF a b] c
  have "sourcesRef (snd (onmessage (3 / 10) chunk_and_interruption playing)) = []
    \<and> nextStartTimeRef (snd (onmessage (3 / 10) chunk_and_interruption playing)) = 0
    \<and> SourceStop (length (effects playing)) \<in>
        set (effects (snd (onmessage (3 / 10) chunk_and_interruption playing)))"
    by blast
  then show ?thesis
    unfolding d using a b
    by (simp add: chunk_and_interruption_eq duration_half_second)
qed

subsection \<open>The cursor over the life of a session\<close>

text \<open>
  Claim C6, amended. \<open>nextStartTimeRef\<close> does not decrease when a message without
  the interruption flag is handled, and it is zero after a message with the flag whose
  handler has completed. \<open>stopSession\<close>, \<open>onclose\<close>, \<open>onerror\<close> and
  \<open>startSession\<close> leave it as it is: the end of a session does not reset it.
\<close>

theorem nextStartTime_monotone_reset_on_interruption:
  "(\<not> interrupted m \<longrightarrow> nextStartTimeRef s \<le> nextStartTimeRef (snd (onmessage now m s)))
   \<and> (interrupted m \<and> fst (onmessage now m s) = Resolved \<longrightarrow>
        nextStartTimeRef (snd (onmessage now m s)) = 0)
   \<and> nextStartTimeRef (stopSession s) = nextStartTimeRef s
   \<and> nextStartTimeRef (onclose s) = nextStartTimeRef s
   \<and> nextStartTimeRef (onerror s) = nextStartTimeRef s
   \<and> nextStartTimeRef (startSession outcome s) = nextStartTimeRef s"
proof -
  have "\<not> interrupted m \<longrightarrow> nextStartTimeRef s \<le> nextStartTimeRef (snd (onmessage now m s))"
    using duration_nonneg
    by (auto simp: onmessage_def after_audio_def Let_def add_increasing2 max.coboundedI1
        split: option.splits payload.splits decoded.splits prod.splits)
  moreover have "interrupted m \<and> fst (onmessage now m s) = Resolved \<longrightarrow>
        nextStartTimeRef (snd (onmessage now m s)) = 0"
    using onmessage_interrupted(2) by blast
  ultimately show ?thesis
    by (simp add: hook_defs Let_def)
qed

theorem nextStartTime_monotone_reset_on_interruption_witness:
  "\<not> interrupted (chunk half_second)
   \<and> nextStartTimeRef active_session \<le> nextStartTimeRef playing
   \<and> interrupted barge_in \<and> fst (onmessage (3 / 10) barge_in playing) = Resolved
   \<and> nextStartTimeRef (snd (onmessage (3 / 10) barge_in playing)) = 0"
proof -
  have a: "\<not> interrupted (chunk half_second)"
    by (simp add: chunk_def)
  have b: "interrupted barge_in \<and> fst (onmessage (3 / 10) barge_in playing) = Resolved"
    unfolding flushed_eq by (simp add: barge_in_def)
  from nextStartTime_monotone_reset_on_interruption [of "chunk half_second" active_session 0] a
  have c: "nextStartTimeRef active_session \<le> nextStartTimeRef playing"
    unfolding playing_def by blast
  from nextStartTime_monotone_reset_on_interruption [of barge_in playing "3 / 10"] b
  have d: "nextStartTimeRef (snd (onmessage (3 / 10) barge_in playing)) = 0"
    by blast
  from a b c d show ?thesis by blast
qed

text \<open>
  Claim C6 as stated fails: after half a second of audio has been scheduled, the cursor is
  still at 0.5 when the session has been stopped or closed. It is not zero either after an
  interruption whose handler throws in line 68: the cursor is then the clock reading 2.
\<close>

theorem nextStartTime_session_end_counterexample:
  "nextStartTimeRef (stopSession playing) = 1 / 2
   \<and> nextStartTimeRef (onclose playing) = 1 / 2
   \<and> \<not> isActive (stopSession playing) \<and> \<not> isActive (onclose playing)
   \<and> interrupted undecodable_interruption
   \<and> fst (onmessage 2 undecodable_interruption playing) = Rejected
   \<and> nextStartTimeRef (snd (onmessage 2 undecodable_interruption playing)) = 2"
  by (simp add: playing_eq hook_defs onmessage_def undecodable_interruption_def)

section \<open>Session lifecycle\<close>

subsection \<open>startSession\<close>

text \<open>
  Claim C3, amended. \<open>startSession\<close> does not look at \<open>isActive\<close>: it does the
  same whether a session is active or not, and leaves the flag as it is. When the browser
  and the SDK answer, it sets the reported error to null, creates two audio contexts,
  acquires the microphone and opens a transport session, and replaces
  \<open>audioContextRef\<close> and \<open>sessionRef\<close>.
\<close>

theorem startSession_unguarded:
  "startSession outcome (s\<lparr>isActive := b\<rparr>) = (startSession outcome s)\<lparr>isActive := b\<rparr>
   \<and> isActive (startSession outcome s) = isActive s
   \<and> effects (startSession Connected s) =
       effects s @ [NewAudioContext 16000, NewAudioContext 24000, GetUserMedia, LiveConnect]
   \<and> audioContextRef (startSession Connected s) =
       Some (length (effects s), length (effects s) + 1)
   \<and> sessionRef (startSession Connected s) = Some (length (effects s) + 3)
   \<and> error (startSession Connected s) = None"
  by (simp add: hook_defs Let_def)

text \<open>
  Claim C3 as stated fails: a second call on an active session acquires everything again.
\<close>

theorem startSession_while_active_counterexample:
  "isActive active_session
   \<and> effects (startSession Connected active_session) \<noteq> effects active_session
   \<and> count_list (effects (startSession Connected active_session)) GetUserMedia = 2
   \<and> count_list (effects (startSession Connected active_session)) LiveConnect = 2
   \<and> count_list (effects (startSession Connected active_session)) (NewAudioContext 16000) = 2
   \<and> count_list (effects (startSession Connected active_session)) (NewAudioContext 24000) = 2"
  by (simp add: active_session_eq hook_defs Let_def)

text \<open>
  Claim C10. \<open>startSession\<close> leaves the transcripts as they are and, when the
  connection succeeds, changes the state only by clearing the reported error, setting
  \<open>audioContextRef\<close> and \<open>sessionRef\<close> and making its four acquisitions; the
  messages of the new session are appended to the transcripts of the earlier one.
\<close>

theorem startSession_keeps_transcripts:
  "transcripts (startSession outcome s) = transcripts s
   \<and> startSession Connected s =
       s\<lparr>error := None,
         audioContextRef := Some (length (effects s), length (effects s) + 1),
         sessionRef := Some (length (effects s) + 3),
         effects := effects s @
           [NewAudioContext 16000, NewAudioContext 24000, GetUserMedia, LiveConnect]\<rparr>
   \<and> (fst (onmessage now m (startSession outcome s)) = Resolved \<longrightarrow>
        transcripts (snd (onmessage now m (startSession outcome s))) = transcripts s
          @ (case outputTranscription m of None \<Rightarrow> [] | Some t \<Rightarrow> [''AI: '' @ rendered t])
          @ (case inputTranscription m of None \<Rightarrow> [] | Some t \<Rightarrow> [''You: '' @ rendered t]))"
proof -
  have a: "transcripts (startSession outcome s) = transcripts s"
    by (simp add: hook_defs Let_def)
  have b: "startSession Connected s =
       s\<lparr>error := None,
         audioContextRef := Some (length (effects s), length (effects s) + 1),
         sessionRef := Some (length (effects s) + 3),
         effects := effects s @
           [NewAudioContext 16000, NewAudioContext 24000, GetUserMedia, LiveConnect]\<rparr>"
    by (cases s) (simp add: hook_defs Let_def)
  have c: "fst (onmessage now m t) = Resolved \<longrightarrow>
        transcripts (snd (onmessage now m t)) = transcripts t
          @ (case outputTranscription m of None \<Rightarrow> [] | Some t \<Rightarrow> [''AI: '' @ rendered t])
          @ (case inputTranscription m of None \<Rightarrow> [] | Some t \<Rightarrow> [''You: '' @ rendered t])" for t
    by (simp add: onmessage_def after_audio_def transcribe_transcripts Let_def
        split: option.splits payload.splits decoded.splits prod.splits)
  from a b c [of "startSession outcome s"] show ?thesis by simp
qed

theorem startSession_keeps_transcripts_witness:
  "transcripts first_session = [''AI: Hello'', ''You: Hi'']
   \<and> transcripts (startSession Connected first_session) = [''AI: Hello'', ''You: Hi'']
   \<and> error (startSession Connected first_session) = None
   \<and> fst (onmessage 5 greeting (startSession Connected first_session)) = Resolved
   \<and> transcripts (snd (onmessage 5 greeting (startSession Connected first_session))) =
       [''AI: Hello'', ''You: Hi'', ''AI: Hello'', ''You: Hi'']"
proof -
  note t = startSession_keeps_transcripts [of Connected first_session 5 greeting]
  have r: "fst (onmessage 5 greeting (startSession Connected first_session)) = Resolved"
    by (simp add: onmessage_def greeting_def)
  from t have e: "error (startSession Connected first_session) = None"
    by simp
  from t r have "transcripts (snd (onmessage 5 greeting (startSession Connected first_session))) =
      transcripts first_session
          @ (case outputTranscription greeting of None \<Rightarrow> [] | Some t \<Rightarrow> [''AI: '' @ rendered t])
          @ (case inputTranscription greeting of None \<Rightarrow> [] | Some t \<Rightarrow> [''You: '' @ rendered t])"
    by blast
  then have n: "transcripts (snd (onmessage 5 greeting (startSession Connected first_session))) =
       [''AI: Hello'', ''You: Hi'', ''AI: Hello'', ''You: Hi'']"
    by (simp add: first_session_transcripts greeting_def)
  from t have k: "transcripts (startSession Connected first_session) = transcripts first_session"
    by blast
  show ?thesis
    unfolding n k first_session_transcripts using r e by simp
qed

subsection \<open>stopSession and the other exits\<close>

text \<open>
  Claim C4, amended. \<open>onmessage\<close> does not look at \<open>isActive\<close>, and
  \<open>stopSession\<close> leaves \<open>audioContextRef\<close> set: a message that arrives after
  \<open>stopSession\<close> is handled as it would have been before. A chunk is dropped (nothing
  started, \<open>sourcesRef\<close> and \<open>nextStartTimeRef\<close> unchanged) only when no audio
  context exists; otherwise it is started, tracked, and the cursor advances.
\<close>

theorem chunk_after_stopSession_scheduled:
  "onmessage now m (stopSession s) =
     (fst (onmessage now m s), stopSession (snd (onmessage now m s)))
   \<and> audioContextRef (stopSession s) = audioContextRef s
   \<and> (audioContextRef s = None \<and> \<not> interrupted m \<longrightarrow>
        effects (snd (onmessage now m (stopSession s))) = effects s
        \<and> sourcesRef (snd (onmessage now m (stopSession s))) = sourcesRef s
        \<and> nextStartTimeRef (snd (onmessage now m (stopSession s))) = nextStartTimeRef s)
   \<and> (\<forall>i out. audioContextRef s = Some (i, out) \<longrightarrow>
        effects (snd (onmessage now (chunk buf) (stopSession s))) = effects s @
          [CreateBufferSource out,
           SourceStart (length (effects s)) buf (max (nextStartTimeRef s) now)]
        \<and> sourcesRef (snd (onmessage now (chunk buf) (stopSession s))) =
            set_add (length (effects s)) (sourcesRef s)
        \<and> nextStartTimeRef (snd (onmessage now (chunk buf) (stopSession s))) =
            max (nextStartTimeRef s) now + duration buf)"
proof -
  have 1: "onmessage now m (stopSession s) =
     (fst (onmessage now m s), stopSession (snd (onmessage now m s)))" for m
    by (simp add: stopSession_def onmessage_isActive_update)
  have 2: "audioContextRef s = None \<and> \<not> interrupted m \<longrightarrow>
        effects (snd (onmessage now m s)) = effects s
        \<and> sourcesRef (snd (onmessage now m s)) = sourcesRef s
        \<and> nextStartTimeRef (snd (onmessage now m s)) = nextStartTimeRef s"
    by (simp add: onmessage_def after_audio_def split: option.splits payload.splits)
  have 3: "\<forall>i out. audioContextRef s = Some (i, out) \<longrightarrow>
        effects (snd (onmessage now (chunk buf) s)) = effects s @
          [CreateBufferSource out,
           SourceStart (length (effects s)) buf (max (nextStartTimeRef s) now)]
        \<and> sourcesRef (snd (onmessage now (chunk buf) s)) =
            set_add (length (effects s)) (sourcesRef s)
        \<and> nextStartTimeRef (snd (onmessage now (chunk buf) s)) =
            max (nextStartTimeRef s) now + duration buf"
    by (simp add: onmessage_chunk chunk_def)
  show ?thesis
    unfolding 1 using 2 3 by (simp add: stopSession_def)
qed

theorem chunk_after_stopSession_scheduled_witness:
  "audioContextRef initial = None \<and> \<not> interrupted (chunk half_second)
   \<and> effects (snd (onmessage 0 (chunk half_second) (stopSession initial))) = []
   \<and> audioContextRef active_session = Some (0, 1)
   \<and> nextStartTimeRef (snd (onmessage 0 (chunk half_second) (stopSession active_session))) = 1 / 2"
proof -
  have a: "audioContextRef initial = None \<and> \<not> interrupted (chunk half_second)"
    by (simp add: initial_def chunk_def)
  have b: "audioContextRef active_session = Some (0, 1)"
    by (simp add: active_session_eq)
  from chunk_after_stopSession_scheduled [of 0 "chunk half_second" initial half_second] a
  have c: "effects (snd (onmessage 0 (chunk half_second) (stopSession initial))) = effects initial"
    by blast
  from chunk_after_stopSession_scheduled [of 0 "chunk half_second" active_session half_second] b
  have d: "nextStartTimeRef (snd (onmessage 0 (chunk half_second) (stopSession active_session))) =
      max (nextStartTimeRef active_session) 0 + duration half_second"
    by blast
  show ?thesis
    unfolding c d using a b by (simp add: initial_def active_session_eq duration_half_second)
qed

text \<open>
  Claim C4 as stated fails: a chunk that arrives after \<open>stopSession\<close> is started on
  the output context, joins \<open>sourcesRef\<close> and moves the cursor to 0.5.
\<close>

theorem chunk_after_stopSession_counterexample:
  "effects (snd (onmessage 0 (chunk half_second) (stopSession active_session))) =
     effects (stopSession active_session) @ [CreateBufferSource 1, SourceStart 6 half_second 0]
   \<and> sourcesRef (stopSession active_session) = []
   \<and> sourcesRef (snd (onmessage 0 (chunk half_second) (stopSession active_session))) = [6]
   \<and> nextStartTimeRef (stopSession active_session) = 0
   \<and> nextStartTimeRef (snd (onmessage 0 (chunk half_second) (stopSession active_session))) = 1 / 2"
  by (simp add: active_session_eq stopSession_def onmessage_def chunk_def after_audio_def
      transcribe_def schedule_def perform_def set_add_def duration_half_second Let_def)

text \<open>
  Claim C5, amended. On every exit (\<open>stopSession\<close>, \<open>onerror\<close>, \<open>onclose\<close>)
  the hook sets \<open>isActive\<close> to false, \<open>onerror\<close> also reports the failure, and
  nothing else changes. No run of the hook, whatever the events, closes an audio context,
  stops a microphone track or closes a transport session.
\<close>

theorem exit_paths_release_nothing:
  "filter is_release (effects (run es initial)) = []
   \<and> filter is_release (effects (run es s)) = filter is_release (effects s)
   \<and> stopSession s = s\<lparr>isActive := False\<rparr>
   \<and> onclose s = s\<lparr>isActive := False\<rparr>
   \<and> onerror s = s\<lparr>isActive := False,
        error := Some ''Connection failed. Check your microphone and API configuration.''\<rparr>"
  using run_no_release [of es initial] run_no_release [of es s]
  by (simp add: hook_defs initial_def)

text \<open>
  Claim C5 as stated fails: after each exit the contexts 0 and 1 and the stream 2 of the
  active session have been released zero times, not once.
\<close>

theorem exit_paths_release_counterexample:
  "audioContextRef (stopSession active_session) = Some (0, 1)
   \<and> count_list (effects (stopSession active_session)) (ContextClose 0) = 0
   \<and> count_list (effects (stopSession active_session)) (ContextClose 1) = 0
   \<and> count_list (effects (stopSession active_session)) (TrackStop 2) = 0
   \<and> count_list (effects (onclose active_session)) (ContextClose 0) = 0
   \<and> count_list (effects (onerror active_session)) (ContextClose 0) = 0"
  by (simp add: active_session_eq hook_defs)

text \<open>
  Claim C8. \<open>stopSession\<close> is idempotent: a second call gives the state of a single
  call, a call on a session that is not active changes nothing, no call sets the reported
  error, and no call touches any browser or SDK object, so none releases a resource twice.
\<close>

theorem stopSession_idempotent:
  "stopSession (stopSession s) = stopSession s
   \<and> (\<not> isActive s \<longrightarrow> stopSession s = s)
   \<and> error (stopSession s) = error s
   \<and> effects (stopSession s) = effects s"
  by (simp add: stopSession_def)

theorem stopSession_idempotent_witness:
  "\<not> isActive (stopSession active_session)
   \<and> stopSession (stopSession active_session) = stopSession active_session
   \<and> effects (stopSession (stopSession active_session)) = effects active_session"
  using stopSession_idempotent [of "stopSession active_session"]
    stopSession_idempotent [of active_session]
  by (simp add: stopSession_def)

section \<open>PCM16 encoding of a capture block\<close>

lemma int16_bytes_little_endian:
  "uint (ucast (w :: 16 word) :: 8 word) + 256 * uint (ucast (drop_bit 8 w) :: 8 word) = uint w"
proof -
  have lo: "uint (ucast w :: 8 word) = uint w mod 256"
    by (simp add: unsigned_ucast_eq take_bit_eq_mod)
  have "uint w < 65536"
    using uint_bounded [of w] by simp
  then have "uint w div 256 < 256" by simp
  moreover have "0 \<le> uint w div 256"
    using unsigned_greater_eq [of w] by (simp add: pos_imp_zdiv_nonneg_iff)
  ultimately have "(uint w div 256) mod 256 = uint w div 256" by simp
  then have hi: "uint (ucast (drop_bit 8 w) :: 8 word) = uint w div 256"
    by (simp add: unsigned_ucast_eq take_bit_eq_mod drop_bit_eq_div uint_div)
  show ?thesis unfolding lo hi by simp
qed

lemma sint_ToInt16:
  "sint (ToInt16 (Finite x)) = (trunc x + 32768) mod 65536 - 32768"
  by (simp add: sint_sbintrunc' signed_take_bit_eq_take_bit_shift take_bit_eq_mod)

lemma trunc_in_range:
  assumes "- 1 \<le> x" and "x < 1"
  shows "- 32768 \<le> trunc (x * 32768)" and "trunc (x * 32768) < 32768"
  using assms by (auto simp: trunc_def le_floor_iff floor_less_iff le_ceiling_iff ceiling_less_iff)

lemma length_pcm_bytes: "length (pcm_bytes xs) = 2 * length xs"
  by (induction xs) (simp_all add: pcm_bytes_def int16_of_def int16_bytes_def)

lemma pcm_bytes_nth:
  "k < length xs \<Longrightarrow>
     pcm_bytes xs ! (2 * k) = ucast (int16_of xs ! k)
     \<and> pcm_bytes xs ! (2 * k + 1) = ucast (drop_bit 8 (int16_of xs ! k))"
proof (induction xs arbitrary: k)
  case Nil
  then show ?case by simp
next
  case (Cons x xs)
  show ?case
  proof (cases k)
    case 0
    then show ?thesis by (simp add: pcm_bytes_def int16_of_def int16_bytes_def)
  next
    case (Suc j)
    with Cons.prems have "j < length xs" by simp
    from Cons.IH [OF this] show ?thesis
      by (simp add: Suc pcm_bytes_def int16_of_def int16_bytes_def)
  qed
qed

lemma pcm_bytes_zeros: "pcm_bytes (replicate n (Finite 0)) = replicate (2 * n) 0"
  by (induction n) (simp_all add: pcm_bytes_def int16_of_def int16_bytes_def trunc_def)

text \<open>
  Claim C7. Every sample is multiplied by 32768, truncated towards zero and reduced modulo
  \<open>2 ^ 16\<close> to a signed 16-bit integer, stored low byte first: two bytes per sample.
  For a sample in \<open>[-1, 1)\<close> the integer is the truncated product itself; outside of it
  the value wraps around, nothing is clipped. A block of 4096 zero samples gives 8192 zero
  bytes.
\<close>

theorem pcm16_encoding:
  "length (pcm_bytes xs) = 2 * length xs
   \<and> (\<forall>k<length xs.
        uint (pcm_bytes xs ! (2 * k)) + 256 * uint (pcm_bytes xs ! (2 * k + 1)) =
          uint (int16_of xs ! k)
        \<and> int16_of xs ! k = ToInt16 (js_times (xs ! k) 32768)
        \<and> (\<forall>x. xs ! k = Finite x \<longrightarrow>
              sint (int16_of xs ! k) = (trunc (x * 32768) + 32768) mod 65536 - 32768
              \<and> (- 1 \<le> x \<and> x < 1 \<longrightarrow> sint (int16_of xs ! k) = trunc (x * 32768))))
   \<and> pcm_bytes (replicate 4096 (Finite 0)) = replicate 8192 0"
proof -
  have each: "uint (pcm_bytes xs ! (2 * k)) + 256 * uint (pcm_bytes xs ! (2 * k + 1)) =
          uint (int16_of xs ! k)
        \<and> int16_of xs ! k = ToInt16 (js_times (xs ! k) 32768)
        \<and> (\<forall>x. xs ! k = Finite x \<longrightarrow>
              sint (int16_of xs ! k) = (trunc (x * 32768) + 32768) mod 65536 - 32768
              \<and> (- 1 \<le> x \<and> x < 1 \<longrightarrow> sint (int16_of xs ! k) = trunc (x * 32768)))"
    if k: "k < length xs" for k
  proof -
    have a: "uint (pcm_bytes xs ! (2 * k)) + 256 * uint (pcm_bytes xs ! (2 * k + 1)) =
          uint (int16_of xs ! k)"
      using pcm_bytes_nth [OF k] int16_bytes_little_endian [of "int16_of xs ! k"] by simp
    have b: "int16_of xs ! k = ToInt16 (js_times (xs ! k) 32768)"
      using k by (simp add: int16_of_def)
    have c: "sint (int16_of xs ! k) = (trunc (x * 32768) + 32768) mod 65536 - 32768"
      if "xs ! k = Finite x" for x
      unfolding b that js_times.simps by (rule sint_ToInt16)
    have d: "sint (int16_of xs ! k) = trunc (x * 32768)"
      if "xs ! k = Finite x" and "- 1 \<le> x \<and> x < 1" for x
      using c [OF that(1)] trunc_in_range [of x] that(2) by simp
    from a b c d show ?thesis by blast
  qed
  have "pcm_bytes (replicate 4096 (Finite 0)) = replicate 8192 0"
    using pcm_bytes_zeros [of 4096] by simp
  with each length_pcm_bytes show ?thesis by blast
qed

text \<open>
  The sample 0.5 becomes 16384, bytes 0x00 0x40; the sample 1.0 wraps to -32768, bytes
  0x00 0x80.
\<close>

theorem pcm16_encoding_witness:
  "pcm_bytes [Finite (1 / 2), Finite 1] = [0, 64, 0, 128]
   \<and> sint (int16_of [Finite (1 / 2), Finite 1] ! 0) = 16384
   \<and> sint (int16_of [Finite (1 / 2), Finite 1] ! 1) = - 32768"
proof -
  let ?xs = "[Finite (1 / 2), Finite 1]"
  note enc = pcm16_encoding [of ?xs]
  have k0: "0 < length ?xs" and k1: "1 < length ?xs" by simp_all
  have x0: "?xs ! 0 = Finite (1 / 2)" and x1: "?xs ! 1 = Finite 1" by simp_all
  have r: "- 1 \<le> (1 / 2 :: real) \<and> (1 / 2 :: real) < 1" by simp
  from enc k0 x0 r have a: "sint (int16_of ?xs ! 0) = trunc (1 / 2 * 32768)"
    by blast
  from enc k1 x1 have b: "sint (int16_of ?xs ! 1) = (trunc (1 * 32768) + 32768) mod 65536 - 32768"
    by blast
  have c: "pcm_bytes ?xs = [0, 64, 0, 128]"
    by (simp add: pcm_bytes_def int16_of_def int16_bytes_def trunc_def)
  show ?thesis unfolding a b c by (simp add: trunc_def)
qed

end
